theory Spec2Isabelle
  imports Main
begin

section \<open>The private blockchain of \<open>src/blockchain.js\<close>\<close>

text \<open>
  The class \<open>Blockchain\<close> keeps an array \<open>this.chain\<close> of blocks and a counter
  \<open>this.height\<close>. Every method returns a promise. A promise is modelled by the way it
  settles: it resolves with a value, it rejects with a reason, or it stays pending for
  ever because neither \<open>resolve\<close> nor \<open>reject\<close> is ever called.

  Blocks are objects: \<open>_addBlock\<close> writes into the object it is given and pushes that
  same object on the array. So the blocks live in a store, by address, and the array holds
  addresses.
\<close>

subsection \<open>Data\<close>

text \<open>
  The reasons a promise of this class rejects with:
  \<^item> \<open>Chain_corruption_detected\<close> is \<open>new Error("Chain corruption detected")\<close>;
  \<^item> \<open>too_late\<close> is the string \<open>"too late!"\<close>;
  \<^item> \<open>reject_is_not_defined\<close> is the ReferenceError of calling the unbound name
    \<open>reject\<close>;
  \<^item> \<open>Thrown e\<close> is whatever a collaborator (\<open>block.validate\<close>, \<open>block.getBData\<close>,
    \<open>bitcoinMessage.verify\<close>) threw or rejected with.
\<close>

datatype error =
    Chain_corruption_detected
  | too_late
  | reject_is_not_defined
  | Thrown string

datatype 'a promise = Resolved 'a | Rejected error | Pending

text \<open>
  The two objects this class hands to the \<open>Block\<close> constructor:
  \<open>{data: 'Genesis Block'}\<close> and \<open>{owner: address, star}\<close>.
\<close>

datatype 'star bdata = Data string | OwnerStar string 'star


text \<open>
  A block, with the five fields \<open>_addBlock\<close> reads and writes. \<open>null\<close> is \<open>None\<close>.
  \<open>time\<close> is the string the clock reading is cut down to.
\<close>

record 'star block =
  hash :: "string option"
  height :: nat
  body :: "'star bdata"
  time :: string
  previousBlockHash :: "string option"

text \<open>
  Modelled from the spec: the constructor \<open>new BlockClass.Block(data)\<close> of \<open>block.js\<close>,
  which is not among the sources. The spec has a candidate block come in with no hash and
  no previous hash (\<open>_addBlock\<close> leaves the previous hash "unset" on an empty chain and
  assigns the hash "exactly once at append time"), and the body hold the encoded payload.
  The encoding is opaque to this class, so the body holds the payload itself.
\<close>

definition Block :: "'star bdata \<Rightarrow> 'star block" where
  "Block data = \<lparr>hash = None, height = 0, body = data, time = [], previousBlockHash = None\<rparr>"

text \<open>
  The state: the store of block objects, \<open>heap\<close>, with the address \<open>next_ref\<close> that
  the next \<open>new\<close> takes, and the two fields of the object \<open>this\<close>: \<open>this.chain\<close>, an
  array of references, and \<open>this.height\<close>. Every reference denotes an object.
\<close>

type_synonym ref = nat

record 'star state =
  heap :: "ref \<Rightarrow> 'star block"
  next_ref :: ref
  this_chain :: "ref list"
  this_height :: int

text \<open>\<open>new BlockClass.Block(data)\<close>: a new object, at an address not in use.\<close>

definition new_Block :: "'star bdata \<Rightarrow> 'star state \<Rightarrow> ref \<times> 'star state" where
  "new_Block data s =
     (next_ref s, s\<lparr>heap := (heap s)(next_ref s := Block data), next_ref := Suc (next_ref s)\<rparr>)"

subsection \<open>The clock\<close>

text \<open>
  \<open>new Date().getTime()\<close> is a count of milliseconds, a parameter \<open>now\<close> of every
  function that reads the clock. \<open>toString\<close> writes it in decimal and \<open>slice(0,-3)\<close>
  drops the last three characters.
\<close>

definition digit_char :: "nat \<Rightarrow> char" where
  "digit_char d = ''0123456789'' ! d"

fun toString :: "nat \<Rightarrow> string" where
  "toString n = (if n < 10 then [digit_char n] else toString (n div 10) @ [digit_char (n mod 10)])"

declare toString.simps [simp del]

definition slice_0_minus3 :: "string \<Rightarrow> string" where
  "slice_0_minus3 s = take (length s - 3) s"

subsection \<open>validateChain\<close>

text \<open>
  \<open>Promise.all(this.chain.map(async block => await block.validate()))\<close>: the results
  in order, or the first rejection. \<open>block.validate\<close> belongs to \<open>block.js\<close> and is the
  parameter \<open>validate\<close>, applied to the object each reference of the array denotes.
\<close>

fun Promise_all :: "(error + 'a) list \<Rightarrow> error + 'a list" where
  "Promise_all [] = Inr []"
| "Promise_all (Inl e # ps) = Inl e"
| "Promise_all (Inr v # ps) = (case Promise_all ps of Inl e \<Rightarrow> Inl e | Inr vs \<Rightarrow> Inr (v # vs))"

definition validateChain ::
  "('star block \<Rightarrow> error + bool) \<Rightarrow> 'star state \<Rightarrow> bool promise" where
  "validateChain validate s =
     (case Promise_all (map (\<lambda>block. validate (heap s block)) (this_chain s)) of
        Inl e \<Rightarrow> Rejected e
      | Inr validationResults \<Rightarrow>
          (let results = filter (\<lambda>x. \<not> x) validationResults
           in if length results \<noteq> 0 then Resolved False else Resolved True))"

subsection \<open>The append: \<open>_addBlock\<close>\<close>

text \<open>
  \<open>SHA256\<close> stands for \<open>SHA256(JSON.stringify(block)).toString()\<close>, a function of the
  object as it is when the hash is taken: height, time and previous hash assigned, the
  hash field still what it was. \<open>block\<close> is the reference passed in; each assignment
  writes into the object it denotes, and the previous hash is read from the last object of
  the array after the first two assignments, so that it sees them when the candidate is
  that very object. \<open>push\<close> stores the reference and returns the new length, which goes
  to \<open>this.height\<close>; the promise resolves with the reference. Nothing is assigned before
  \<open>validateChain\<close> has settled, and a rejection of it is caught and passed on.
\<close>

definition addBlock ::
  "('star block \<Rightarrow> error + bool) \<Rightarrow> ('star block \<Rightarrow> string) \<Rightarrow> nat \<Rightarrow>
   ref \<Rightarrow> 'star state \<Rightarrow> ref promise \<times> 'star state" where
  "addBlock validate SHA256 now block s =
     (case validateChain validate s of
        Rejected err \<Rightarrow> (Rejected err, s)
      | Pending \<Rightarrow> (Pending, s)
      | Resolved chainIsValidated \<Rightarrow>
          if \<not> chainIsValidated then (Rejected Chain_corruption_detected, s)
          else
            let h = heap s;
                h = h(block := (h block)\<lparr>height := length (this_chain s)\<rparr>);
                h = h(block := (h block)\<lparr>time := slice_0_minus3 (toString now)\<rparr>);
                h = (if length (this_chain s) \<noteq> 0
                     then h(block := (h block)\<lparr>previousBlockHash := hash (h (last (this_chain s)))\<rparr>)
                     else h);
                h = h(block := (h block)\<lparr>hash := Some (SHA256 (h block))\<rparr>);
                chain = this_chain s @ [block]
            in (Resolved block,
                s\<lparr>heap := h, this_chain := chain, this_height := int (length chain)\<rparr>))"

subsection \<open>The constructor, initializeChain and getChainHeight\<close>

text \<open>
  The constructor assigns \<open>this.chain = []\<close> and \<open>this.height = -1\<close> and starts
  \<open>initializeChain\<close>, which it does not await: \<open>new_Blockchain\<close> is the object as the
  constructor returns it, in a store \<open>h\<close>, and \<open>initializeChain\<close> applied to it is the
  ledger once that call has settled. An error of the append is logged and dropped.
\<close>

definition new_Blockchain :: "(ref \<Rightarrow> 'star block) \<Rightarrow> ref \<Rightarrow> 'star state" where
  "new_Blockchain h n = \<lparr>heap = h, next_ref = n, this_chain = [], this_height = - 1\<rparr>"

definition initializeChain ::
  "('star block \<Rightarrow> error + bool) \<Rightarrow> ('star block \<Rightarrow> string) \<Rightarrow> nat \<Rightarrow>
   'star state \<Rightarrow> 'star state" where
  "initializeChain validate SHA256 now s =
     (if this_height s = - 1
      then (let (block, s) = new_Block (Data ''Genesis Block'') s
            in snd (addBlock validate SHA256 now block s))
      else s)"

definition getChainHeight :: "'star state \<Rightarrow> int promise" where
  "getChainHeight s = Resolved (this_height s)"

subsection \<open>Strings and numbers of the language\<close>

text \<open>
  \<open>message.split(':')\<close>: the fields between the colons, one more than there are colons.
\<close>

fun split_colon :: "string \<Rightarrow> string list" where
  "split_colon [] = [[]]"
| "split_colon (c # cs) =
     (if c = CHR '':'' then [] # split_colon cs
      else (case split_colon cs of [] \<Rightarrow> [[c]] | f # fs \<Rightarrow> (c # f) # fs))"

text \<open>
  \<open>parseInt\<close> with no radix, as the language defines it: leading white space is dropped,
  then a sign, then \<open>0x\<close> or \<open>0X\<close> selects radix 16; the value is that of the longest
  run of digits that follows, and NaN (\<open>None\<close>) when that run is empty. A character is a
  code unit below 256. The value is kept exact: a clock reading is far below \<open>2^53\<close>,
  where the rounding of a long digit string to a double does not change on which side of
  300 a difference with it falls.
\<close>

definition is_StrWhiteSpaceChar :: "char \<Rightarrow> bool" where
  "is_StrWhiteSpaceChar c \<longleftrightarrow>
     c \<in> set [CHR 0x09, CHR 0x0A, CHR 0x0B, CHR 0x0C, CHR 0x0D, CHR 0x20, CHR 0xA0]"

fun position :: "char \<Rightarrow> string \<Rightarrow> nat option" where
  "position c [] = None"
| "position c (x # xs) = (if c = x then Some 0 else map_option Suc (position c xs))"

definition digit_value :: "char \<Rightarrow> nat option" where
  "digit_value c =
     (case position c ''0123456789abcdef'' of
        Some v \<Rightarrow> Some v
      | None \<Rightarrow> position c ''0123456789ABCDEF'')"

definition is_radix_digit :: "nat \<Rightarrow> char \<Rightarrow> bool" where
  "is_radix_digit R c = (case digit_value c of None \<Rightarrow> False | Some v \<Rightarrow> v < R)"

definition radix_value :: "nat \<Rightarrow> string \<Rightarrow> nat" where
  "radix_value R Z = foldl (\<lambda>acc c. acc * R + (case digit_value c of None \<Rightarrow> 0 | Some v \<Rightarrow> v)) 0 Z"

definition parseInt :: "string \<Rightarrow> int option" where
  "parseInt string =
     (let S = dropWhile is_StrWhiteSpaceChar string;
          sign = (if take 1 S = ''-'' then - 1 else 1);
          S = (if take 1 S = ''+'' \<or> take 1 S = ''-'' then drop 1 S else S);
          hex = (take 2 S = ''0x'' \<or> take 2 S = ''0X'');
          R = (if hex then 16 else 10);
          S = (if hex then drop 2 S else S);
          Z = takeWhile (is_radix_digit R) S
      in if Z = [] then None else Some (sign * int (radix_value R Z)))"

text \<open>
  Subtraction and \<open><\<close> on numbers that may be NaN: a difference with NaN is NaN, and a
  comparison with NaN is false.
\<close>

definition js_minus :: "int option \<Rightarrow> int option \<Rightarrow> int option" where
  "js_minus a b = (case (a, b) of (Some x, Some y) \<Rightarrow> Some (x - y) | _ \<Rightarrow> None)"

definition js_less :: "int option \<Rightarrow> int \<Rightarrow> bool" where
  "js_less a k = (case a of None \<Rightarrow> False | Some x \<Rightarrow> x < k)"

subsection \<open>requestMessageOwnershipVerification\<close>

text \<open>
  The executor is \<open>(resolve) => { if(!address) reject(...) ... }\<close>: \<open>reject\<close> is not bound
  there, so the call throws a ReferenceError, which rejects the promise. The only falsy
  string is the empty one.
\<close>

definition requestMessageOwnershipVerification :: "nat \<Rightarrow> string \<Rightarrow> string promise" where
  "requestMessageOwnershipVerification now address =
     (if address = [] then Rejected reject_is_not_defined
      else
        let message = address @ '':'' @ slice_0_minus3 (toString now) @ '':starRegistry''
        in Resolved message)"

subsection \<open>submitStar\<close>

text \<open>
  \<open>message.split(':')[1]\<close> is undefined when the message has no colon, and \<open>parseInt\<close>
  reads undefined as the string \<open>"undefined"\<close>.
\<close>

definition starCreationTime :: "string \<Rightarrow> int option" where
  "starCreationTime message =
     (let fields = split_colon message
      in parseInt (if 1 < length fields then fields ! 1 else ''undefined''))"

definition currentTime :: "nat \<Rightarrow> int option" where
  "currentTime now = parseInt (slice_0_minus3 (toString now))"

text \<open>
  \<open>bitcoinMessage.verify\<close> is the parameter \<open>verify\<close>; it answers true or false, or throws.
  The clock is read twice: \<open>now\<close> by \<open>submitStar\<close>, \<open>now'\<close> by \<open>_addBlock\<close>. When the
  message does not verify, neither \<open>resolve\<close> nor \<open>reject\<close> is called.
\<close>

definition submitStar ::
  "('star block \<Rightarrow> error + bool) \<Rightarrow> (string \<Rightarrow> string \<Rightarrow> string \<Rightarrow> error + bool) \<Rightarrow>
   ('star block \<Rightarrow> string) \<Rightarrow> nat \<Rightarrow> nat \<Rightarrow>
   string \<Rightarrow> string \<Rightarrow> string \<Rightarrow> 'star \<Rightarrow> 'star state \<Rightarrow>
   ref promise \<times> 'star state" where
  "submitStar validate verify SHA256 now now' address message signature star s =
     (if js_less (js_minus (currentTime now) (starCreationTime message)) (60 * 5) then
        (case verify message address signature of
           Inl e \<Rightarrow> (Rejected e, s)
         | Inr messageIsVerified \<Rightarrow>
             if messageIsVerified then
               let (block, s) = new_Block (OwnerStar address star) s
               in addBlock validate SHA256 now' block s
             else (Pending, s))
      else (Rejected too_late, s))"

subsection \<open>getStarsByWalletAddress\<close>


subsection \<open>Self-validation of a block\<close>

text \<open>
  Modelled from the spec: \<open>block.validate()\<close> of \<open>block.js\<close>, which is not among the
  sources. The spec has it "recompute content hash, compare to stored \<open>hash\<close>", the
  content hash being the digest "over all fields except \<open>hash\<close> itself". The theorems
  about \<open>validateChain\<close> and \<open>_addBlock\<close> hold for any \<open>validate\<close>; this one serves where
  a concrete chain is validated.
\<close>

definition validate_recompute :: "('star block \<Rightarrow> string) \<Rightarrow> 'star block \<Rightarrow> error + bool" where
  "validate_recompute SHA256 block = Inr (hash block = Some (SHA256 (block\<lparr>hash := None\<rparr>)))"

text \<open>
  A block that stores the digest of its other fields, as \<open>_addBlock\<close> leaves a candidate
  that came without a hash: the way to write down a block that passes self-validation.
\<close>

definition seal :: "('star block \<Rightarrow> string) \<Rightarrow> 'star block \<Rightarrow> 'star block" where
  "seal SHA256 block = block\<lparr>hash := Some (SHA256 (block\<lparr>hash := None\<rparr>))\<rparr>"

subsection \<open>Sequences of appends\<close>



fun addBlocks ::
  "('star block \<Rightarrow> error + bool) \<Rightarrow> ('star block \<Rightarrow> string) \<Rightarrow>
   (nat \<times> ref) list \<Rightarrow> 'star state \<Rightarrow> 'star state option" where
  "addBlocks validate SHA256 [] s = Some s"
| "addBlocks validate SHA256 ((now, block) # appends) s =
     (case addBlock validate SHA256 now block s of
        (Resolved sealed, s') \<Rightarrow> addBlocks validate SHA256 appends s'
      | _ \<Rightarrow> None)"


subsection \<open>The message shape of the specification\<close>

text \<open>
  The specification's words, not the code's: a message has the expected shape when it is
  three colon-delimited fields, the second a run of decimal digits and the third the tag
  \<open>starRegistry\<close>.
\<close>

definition expected_shape :: "string \<Rightarrow> bool" where
  "expected_shape message =
     (case split_colon message of
        [address, timestamp, tag] \<Rightarrow>
          timestamp \<noteq> [] \<and> list_all (is_radix_digit 10) timestamp \<and> tag = ''starRegistry''
      | _ \<Rightarrow> False)"

section \<open>Properties\<close>

subsection \<open>The clock reading, cut to seconds\<close>

lemma digit_value_digit_char: "d < 10 \<Longrightarrow> digit_value (digit_char d) = Some d"
  by (auto simp: digit_char_def digit_value_def less_Suc_eq numeral_eq_Suc nth_Cons')

lemma toString_step: "10 \<le> n \<Longrightarrow> toString n = toString (n div 10) @ [digit_char (n mod 10)]"
  by (subst toString.simps) simp

lemma toString_small: "n < 10 \<Longrightarrow> toString n = [digit_char n]"
  by (subst toString.simps) simp

lemma div_div_1000: "(n::nat) div 10 div 10 div 10 = n div 1000"
  by (simp add: div_mult2_eq[symmetric])

lemma toString_thousands:
  assumes "1000 \<le> n"
  shows "toString n = toString (n div 1000) @
           [digit_char (n div 100 mod 10), digit_char (n div 10 mod 10), digit_char (n mod 10)]"
proof -
  have a: "toString n = toString (n div 10) @ [digit_char (n mod 10)]"
    using assms by (intro toString_step) simp
  have b: "toString (n div 10) = toString (n div 10 div 10) @ [digit_char (n div 10 mod 10)]"
    using assms by (intro toString_step) simp
  have c: "toString (n div 10 div 10) = toString (n div 10 div 10 div 10) @ [digit_char (n div 10 div 10 mod 10)]"
    using assms by (intro toString_step) simp
  have d: "n div 10 div 10 = n div 100"
    by (simp add: div_mult2_eq[symmetric])
  have e: "n div 100 div 10 = n div 1000"
    by (simp add: div_mult2_eq[symmetric])
  show ?thesis
    using a b c by (simp add: d e)
qed

lemma length_toString_pos: "0 < length (toString n)"
  by (subst toString.simps) simp

lemma slice_toString:
  "slice_0_minus3 (toString n) = (if n < 1000 then [] else toString (n div 1000))"
proof (cases "n < 1000")
  case True
  have "length (toString n) \<le> 3"
  proof (cases "n < 10")
    case True
    then show ?thesis by (simp add: toString_small)
  next
    case n10: False
    show ?thesis
    proof (cases "n < 100")
      case True
      then show ?thesis using n10 by (simp add: toString_step toString_small)
    next
      case False
      then have "n div 10 div 10 < 10" using True by simp
      then show ?thesis using n10 False by (simp add: toString_step toString_small)
    qed
  qed
  then show ?thesis using True by (simp add: slice_0_minus3_def)
next
  case False
  then show ?thesis by (simp add: toString_thousands slice_0_minus3_def)
qed

lemma toString_digits: "c \<in> set (toString n) \<Longrightarrow> digit_value c \<noteq> None \<and> the (digit_value c) < 10"
proof (induction n arbitrary: c rule: toString.induct)
  case (1 n)
  show ?case
  proof (cases "n < 10")
    case True
    then show ?thesis using "1.prems" by (simp add: toString_small digit_value_digit_char)
  next
    case False
    then have "c \<in> set (toString (n div 10)) \<or> c = digit_char (n mod 10)"
      using "1.prems" by (auto simp: toString_step)
    then show ?thesis
      using "1.IH"[OF False] by (auto simp: digit_value_digit_char)
  qed
qed

lemma toString_radix_digits: "c \<in> set (toString n) \<Longrightarrow> is_radix_digit 10 c"
  using toString_digits[of c n] by (auto simp: is_radix_digit_def split: option.splits)

lemma radix_value_snoc:
  "radix_value R (Z @ [c]) = radix_value R Z * R + (case digit_value c of None \<Rightarrow> 0 | Some v \<Rightarrow> v)"
  by (simp add: radix_value_def)

lemma radix_value_toString: "radix_value 10 (toString n) = n"
proof (induction n rule: toString.induct)
  case (1 n)
  show ?case
  proof (cases "n < 10")
    case True
    then show ?thesis by (simp add: toString_small radix_value_def digit_value_digit_char)
  next
    case False
    then show ?thesis
      using "1.IH"[OF False] by (simp add: toString_step radix_value_snoc digit_value_digit_char)
  qed
qed

lemma digit_not_special:
  "is_radix_digit 10 c \<Longrightarrow> \<not> is_StrWhiteSpaceChar c \<and> c \<noteq> CHR ''-'' \<and> c \<noteq> CHR ''+'' \<and> c \<noteq> CHR ''x'' \<and> c \<noteq> CHR ''X''"
  by (auto simp: is_radix_digit_def digit_value_def is_StrWhiteSpaceChar_def split: if_splits)

lemma parseInt_digits:
  assumes "Z \<noteq> []" and "\<forall>c \<in> set Z. is_radix_digit 10 c"
  shows "parseInt Z = Some (int (radix_value 10 Z))"
proof -
  obtain c cs where Z: "Z = c # cs" using assms(1) by (cases Z) auto
  have d: "is_radix_digit 10 c" using assms(2) by (simp add: Z)
  have c: "\<not> is_StrWhiteSpaceChar c" "c \<noteq> CHR ''-''" "c \<noteq> CHR ''+''"
    using d digit_not_special[of c] by auto
  have nohex: "take 2 (c # cs) \<noteq> ''0x''" "take 2 (c # cs) \<noteq> ''0X''"
    using assms(2) digit_not_special by (cases cs; auto simp: Z)+
  have tw: "takeWhile (is_radix_digit 10) cs = cs"
    using assms(2) by (simp add: takeWhile_eq_all_conv Z)
  have "parseInt (c # cs) = Some (int (radix_value 10 (c # cs)))"
    unfolding parseInt_def Let_def using nohex by (auto simp: c d tw)
  then show ?thesis by (simp add: Z)
qed

lemma parseInt_toString: "parseInt (toString n) = Some (int n)"
  using parseInt_digits[of "toString n"] length_toString_pos[of n]
  by (simp add: toString_radix_digits radix_value_toString)

lemma parseInt_empty: "parseInt [] = None"
  by (simp add: parseInt_def)

lemma currentTime_eq: "currentTime now = (if now < 1000 then None else Some (int (now div 1000)))"
  by (simp add: currentTime_def slice_toString parseInt_toString parseInt_empty)


subsection \<open>Chain validation\<close>

lemma Promise_all_map_Inr: "Promise_all (map Inr vs) = Inr vs"
  by (induction vs) auto

lemma Promise_all_InrD: "Promise_all ps = Inr vs \<Longrightarrow> ps = map Inr vs"
  by (induction ps arbitrary: vs rule: Promise_all.induct) (auto split: sum.splits)

lemma Promise_all_Inr:
  "Promise_all (map f xs) = Inr vs \<longleftrightarrow> map f xs = map Inr vs"
  using Promise_all_InrD Promise_all_map_Inr by metis

lemma validateChain_True_iff:
  "validateChain validate s = Resolved True \<longleftrightarrow>
     (\<forall>block \<in> set (this_chain s). validate (heap s block) = Inr True)"
proof
  let ?v = "\<lambda>block. validate (heap s block)"
  assume "validateChain validate s = Resolved True"
  then obtain rs where rs: "Promise_all (map ?v (this_chain s)) = Inr rs"
    and all: "filter (\<lambda>x. \<not> x) rs = []"
    by (auto simp: validateChain_def Let_def split: sum.splits if_splits)
  from rs have m: "map ?v (this_chain s) = map Inr rs"
    by (simp only: Promise_all_Inr)
  show "\<forall>block \<in> set (this_chain s). validate (heap s block) = Inr True"
  proof
    fix block assume "block \<in> set (this_chain s)"
    then have "?v block \<in> set (map ?v (this_chain s))" by simp
    then have "?v block \<in> set (map Inr rs)" by (simp only: m)
    then obtain r where "r \<in> set rs" "validate (heap s block) = Inr r" by auto
    moreover have "r" using all \<open>r \<in> set rs\<close> by (auto simp: filter_empty_conv)
    ultimately show "validate (heap s block) = Inr True" by simp
  qed
next
  let ?v = "\<lambda>block. validate (heap s block)"
  assume a: "\<forall>block \<in> set (this_chain s). validate (heap s block) = Inr True"
  then have "map ?v (this_chain s) = map Inr (map (\<lambda>_. True) (this_chain s))"
    by simp
  then have "Promise_all (map ?v (this_chain s)) = Inr (map (\<lambda>_. True) (this_chain s))"
    by (simp only: Promise_all_Inr)
  then show "validateChain validate s = Resolved True"
    by (simp add: validateChain_def)
qed

lemma validateChain_Nil: "this_chain s = [] \<Longrightarrow> validateChain validate s = Resolved True"
  by (simp add: validateChain_def)

text \<open>
  Claim C10. On the empty chain \<open>validateChain\<close> resolves true, whatever
  \<open>block.validate\<close> would answer, so the first append goes past the validation gate
  of \<open>_addBlock\<close>: it resolves with the candidate, sealed, which becomes the whole chain.
\<close>

theorem validateChain_empty_passes:
  "validateChain validate (new_Blockchain h n) = Resolved True
   \<and> addBlock validate SHA256 now block (new_Blockchain h n) =
       (let sealed = (h block)\<lparr>height := 0, time := slice_0_minus3 (toString now)\<rparr>;
            sealed = sealed\<lparr>hash := Some (SHA256 sealed)\<rparr>
        in (Resolved block,
            \<lparr>heap = h(block := sealed), next_ref = n, this_chain = [block], this_height = 1\<rparr>))"
  by (simp add: addBlock_def validateChain_Nil new_Blockchain_def Let_def)

subsection \<open>The append\<close>

text \<open>
  Claim C4. \<open>_addBlock\<close> validates the chain before it touches anything: when
  \<open>validateChain\<close> resolves false, the promise rejects with
  \<open>Error("Chain corruption detected")\<close>, and the chain, the counter and every block are
  as they were.
\<close>

theorem addBlock_corrupt_chain:
  "validateChain validate s = Resolved False \<Longrightarrow>
   addBlock validate SHA256 now block s = (Rejected Chain_corruption_detected, s)"
  by (simp add: addBlock_def)

theorem addBlock_corrupt_chain_witness:
  "validateChain (\<lambda>b. Inr (hash b = Some ''sealed''))
     \<lparr>heap = (\<lambda>r. Block (Data ''Genesis Block'') :: unit block), next_ref = 2,
      this_chain = [0], this_height = 1\<rparr> = Resolved False
   \<and> addBlock (\<lambda>b. Inr (hash b = Some ''sealed'')) (\<lambda>b. ''sealed'') 1700000000000 1
       \<lparr>heap = (\<lambda>r. Block (Data ''Genesis Block'') :: unit block), next_ref = 2,
        this_chain = [0], this_height = 1\<rparr>
     = (Rejected Chain_corruption_detected,
        \<lparr>heap = (\<lambda>r. Block (Data ''Genesis Block'')), next_ref = 2,
         this_chain = [0], this_height = 1\<rparr>)"
proof -
  have h: "validateChain (\<lambda>b. Inr (hash b = Some ''sealed''))
     \<lparr>heap = (\<lambda>r. Block (Data ''Genesis Block'') :: unit block), next_ref = 2,
      this_chain = [0], this_height = 1\<rparr> = Resolved False"
    by (simp add: validateChain_def Block_def)
  show ?thesis
    using h addBlock_corrupt_chain [OF h] by simp
qed

text \<open>
  A rejection of \<open>validateChain\<close> is passed on, and in no case but a chain that
  validates does \<open>_addBlock\<close> change the object or a block.
\<close>

lemma addBlock_unchanged_unless_valid:
  "validateChain validate s \<noteq> Resolved True \<Longrightarrow>
   snd (addBlock validate SHA256 now block s) = s"
  by (cases "validateChain validate s") (auto simp: addBlock_def)

subsection \<open>The height counter\<close>

text \<open>
  Claim C3. The counter is to be the length of the chain minus one, so 0 on a fresh
  ledger. The code stores what \<open>push\<close> returns, the new length: the fresh ledger, once
  \<open>initializeChain\<close> has put the genesis block in it, reports 1.
\<close>

theorem fresh_ledger_height:
  "getChainHeight (initializeChain validate SHA256 now (new_Blockchain h n)) = Resolved 1
   \<and> length (this_chain (initializeChain validate SHA256 now (new_Blockchain h n))) = 1"
  by (simp add: getChainHeight_def new_Blockchain_def initializeChain_def new_Block_def
      addBlock_def validateChain_Nil Let_def)

text \<open>
  Before that call has settled the counter is the constructor's -1, and after every
  append that succeeds it is the length of the chain, not one less.
\<close>

lemma new_Blockchain_counter: "getChainHeight (new_Blockchain h n) = Resolved (- 1)"
  by (simp add: getChainHeight_def new_Blockchain_def)

lemma addBlock_counter_is_length:
  "addBlock validate SHA256 now block s = (Resolved sealed, s') \<Longrightarrow>
   this_height s' = int (length (this_chain s'))"
  by (auto simp: addBlock_def Let_def split: promise.splits if_splits)

subsection \<open>The challenge message\<close>

text \<open>
  Claim C8, as stated, fails: for the empty address the method does not raise an error
  that says the address is not valid. It returns a promise, as for every address, and the
  promise rejects with the ReferenceError of the unbound name \<open>reject\<close>.
\<close>

theorem requestMessageOwnershipVerification_empty_address:
  "requestMessageOwnershipVerification 1700000123456 [] = Rejected reject_is_not_defined"
  by (simp add: requestMessageOwnershipVerification_def)

text \<open>
  Claim C8, amended. The failure for an empty address comes through the promise the
  method returns: the promise rejects. For every address that is not empty, the clock
  reading one second at least, the promise resolves with the address, the seconds of the
  clock in decimal and the tag \<open>starRegistry\<close>, joined by colons.
\<close>

theorem requestMessageOwnershipVerification_outcome:
  "(address = [] \<longrightarrow> (\<exists>e. requestMessageOwnershipVerification now address = Rejected e))
   \<and> (address \<noteq> [] \<and> 1000 \<le> now \<longrightarrow>
        requestMessageOwnershipVerification now address =
          Resolved (address @ '':'' @ toString (now div 1000) @ '':starRegistry''))"
  by (simp add: requestMessageOwnershipVerification_def slice_toString)

theorem requestMessageOwnershipVerification_outcome_witness:
  "requestMessageOwnershipVerification 1700000123456 ''1LDmPzPJBEHmvocCSAuggD6ZRVxFHHXeQh''
     = Resolved ''1LDmPzPJBEHmvocCSAuggD6ZRVxFHHXeQh:1700000123:starRegistry''"
proof -
  have "toString (1700000123456 div 1000) = ''1700000123''"
    by (simp add: toString.simps digit_char_def)
  then show ?thesis
    using requestMessageOwnershipVerification_outcome
      [of "''1LDmPzPJBEHmvocCSAuggD6ZRVxFHHXeQh''" 1700000123456]
    by simp
qed

subsection \<open>Submitting a star\<close>

lemmas parse_eval = starCreationTime_def currentTime_def parseInt_def is_StrWhiteSpaceChar_def
  is_radix_digit_def digit_value_def radix_value_def toString.simps digit_char_def
  slice_0_minus3_def js_less_def js_minus_def

text \<open>
  Claim C6. With the clock at \<open>now\<close> milliseconds (one second at least) and a message
  whose second field reads as the second \<open>t\<close>: when \<open>now div 1000 - t\<close> is 300 or more,
  so at 301, \<open>submitStar\<close> rejects with \<open>"too late!"\<close> and changes nothing; when it is
  less, so at 299, the outcome is the one of the signature check and of what follows it.
\<close>

theorem submitStar_five_minutes:
  assumes "1000 \<le> now" and "starCreationTime message = Some t"
  shows "(300 \<le> int (now div 1000) - t \<longrightarrow>
            submitStar validate verify SHA256 now now' address message signature star s
              = (Rejected too_late, s))
       \<and> (int (now div 1000) - t < 300 \<longrightarrow>
            submitStar validate verify SHA256 now now' address message signature star s
              = (case verify message address signature of
                   Inl e \<Rightarrow> (Rejected e, s)
                 | Inr messageIsVerified \<Rightarrow>
                     if messageIsVerified
                     then addBlock validate SHA256 now' (fst (new_Block (OwnerStar address star) s))
                            (snd (new_Block (OwnerStar address star) s))
                     else (Pending, s)))"
  using assms
  by (simp add: submitStar_def currentTime_eq js_less_def js_minus_def Let_def
      split: sum.splits prod.splits)

theorem submitStar_five_minutes_witness:
  "submitStar (\<lambda>b. Inr True) (\<lambda>m a s. Inr True) (\<lambda>b. ''digest'') 1700000301999 1700000302000
      ''addr'' ''addr:1700000000:starRegistry'' ''signature'' ''star''
      (new_Blockchain (\<lambda>r. Block (Data [])) 0)
     = (Rejected too_late, new_Blockchain (\<lambda>r. Block (Data [])) 0)
   \<and> submitStar (\<lambda>b. Inr True) (\<lambda>m a s. Inr True) (\<lambda>b. ''digest'') 1700000299999 1700000300000
      ''addr'' ''addr:1700000000:starRegistry'' ''signature'' ''star''
      (new_Blockchain (\<lambda>r. Block (Data [])) 0)
     = (Resolved 0,
        \<lparr>heap = (\<lambda>r. Block (Data []))
                 (0 := \<lparr>hash = Some ''digest'', height = 0, body = OwnerStar ''addr'' ''star'',
                         time = ''1700000300'', previousBlockHash = None\<rparr>),
         next_ref = 1, this_chain = [0], this_height = 1\<rparr>)"
proof -
  have t: "starCreationTime ''addr:1700000000:starRegistry'' = Some 1700000000"
    by (simp add: parse_eval)
  have n: "(1000::nat) \<le> 1700000301999" "(1000::nat) \<le> 1700000299999" by simp_all
  have c: "slice_0_minus3 (toString 1700000300000) = ''1700000300''"
    by (simp add: slice_0_minus3_def toString.simps digit_char_def)
  show ?thesis
    using submitStar_five_minutes [OF n(1) t, of "\<lambda>b. Inr True" "\<lambda>m a s. Inr True" "\<lambda>b. ''digest''"
        1700000302000 "''addr''" "''signature''" "''star''" "new_Blockchain (\<lambda>r. Block (Data [])) 0"]
      submitStar_five_minutes [OF n(2) t, of "\<lambda>b. Inr True" "\<lambda>m a s. Inr True" "\<lambda>b. ''digest''"
        1700000300000 "''addr''" "''signature''" "''star''" "new_Blockchain (\<lambda>r. Block (Data [])) 0"]
    by (simp add: new_Block_def new_Blockchain_def addBlock_def validateChain_def Block_def c Let_def)
qed

text \<open>
  Claim C5. A fresh message whose signature does not verify is to fail with an error.
  The code has no branch for it: the chain is unchanged, and the promise neither resolves
  nor rejects.
\<close>

theorem submitStar_bad_signature_pending:
  "submitStar validate (\<lambda>message address signature. Inr False) SHA256 1700000100000 now'
     ''addr'' ''addr:1700000000:starRegistry'' signature star s = (Pending, s)"
  by (simp add: submitStar_def parse_eval)

lemma submitStar_not_verified:
  "js_less (js_minus (currentTime now) (starCreationTime message)) 300 \<Longrightarrow>
   verify message address signature = Inr False \<Longrightarrow>
   submitStar validate verify SHA256 now now' address message signature star s = (Pending, s)"
  by (simp add: submitStar_def)

text \<open>
  Claim C7, as stated, fails: a message of two fields only, which has not the expected
  shape, is taken, and with a signature that verifies the star is appended.
\<close>

theorem submitStar_two_fields_accepted:
  "\<not> expected_shape ''addr:1700000000''
   \<and> submitStar (\<lambda>b. Inr True) (\<lambda>m a s. Inr True) (\<lambda>b. ''digest'') 1700000100000 1700000100500
       ''addr'' ''addr:1700000000'' ''signature'' ''star''
       \<lparr>heap = (\<lambda>r. Block (Data [])), next_ref = 0, this_chain = [], this_height = - 1\<rparr>
     = (Resolved 0,
        \<lparr>heap = (\<lambda>r. Block (Data []))
                 (0 := \<lparr>hash = Some ''digest'', height = 0, body = OwnerStar ''addr'' ''star'',
                         time = ''1700000100'', previousBlockHash = None\<rparr>),
         next_ref = 1, this_chain = [0], this_height = 1\<rparr>)"
  by (simp add: expected_shape_def submitStar_def parse_eval new_Block_def addBlock_def
      validateChain_def Block_def Let_def)

text \<open>
  Claim C7, amended. \<open>submitStar\<close> has no error of its own for a malformed message. When
  the message has no second colon-delimited field, or that field does not read as an
  integer, the time of the message is NaN, the comparison fails, and the promise rejects
  with \<open>"too late!"\<close>, the chain unchanged.
\<close>

theorem submitStar_no_timestamp:
  "length (split_colon message) < 2 \<or> parseInt (split_colon message ! 1) = None \<Longrightarrow>
   submitStar validate verify SHA256 now now' address message signature star s
     = (Rejected too_late, s)"
proof -
  assume "length (split_colon message) < 2 \<or> parseInt (split_colon message ! 1) = None"
  moreover have "parseInt ''undefined'' = None" by (simp add: parse_eval)
  ultimately have "starCreationTime message = None"
    by (auto simp: starCreationTime_def Let_def)
  then show ?thesis
    by (simp add: submitStar_def js_less_def js_minus_def split: option.splits)
qed

theorem submitStar_no_timestamp_witness:
  "submitStar (\<lambda>b. Inr True) (\<lambda>m a s. Inr True) (\<lambda>b. ''digest'') 1700000100000 1700000100500
      ''addr'' ''not a message'' ''signature'' ''star'' (new_Blockchain (\<lambda>r. Block (Data [])) 0)
     = (Rejected too_late, new_Blockchain (\<lambda>r. Block (Data [])) 0)
   \<and> submitStar (\<lambda>b. Inr True) (\<lambda>m a s. Inr True) (\<lambda>b. ''digest'') 1700000100000 1700000100500
      ''addr'' ''addr:soon:starRegistry'' ''signature'' ''star'' (new_Blockchain (\<lambda>r. Block (Data [])) 0)
     = (Rejected too_late, new_Blockchain (\<lambda>r. Block (Data [])) 0)"
proof -
  have a: "length (split_colon ''not a message'') < 2 \<or> parseInt (split_colon ''not a message'' ! 1) = None"
    by simp
  have b: "length (split_colon ''addr:soon:starRegistry'') < 2 \<or> parseInt (split_colon ''addr:soon:starRegistry'' ! 1) = None"
    by (simp add: parse_eval)
  show ?thesis
    using submitStar_no_timestamp [OF a, of "\<lambda>b. Inr True" "\<lambda>m a s. Inr True" "\<lambda>b. ''digest''"
        1700000100000 1700000100500 "''addr''" "''signature''" "''star''"
        "new_Blockchain (\<lambda>r. Block (Data [])) 0"]
      submitStar_no_timestamp [OF b, of "\<lambda>b. Inr True" "\<lambda>m a s. Inr True" "\<lambda>b. ''digest''"
        1700000100000 1700000100500 "''addr''" "''signature''" "''star''"
        "new_Blockchain (\<lambda>r. Block (Data [])) 0"]
    by simp
qed

subsection \<open>What validateChain checks\<close>

text \<open>
  Claim C2. \<open>validateChain\<close> is to resolve true only when, besides every block
  validating itself, every block after the first stores the hash of the block before it
  and the first stores none. The code asks each block to validate itself and nothing
  else (lemma \<open>validateChain_True_iff\<close>): a chain whose second block names a previous
  hash that is not the hash of the first, and a chain whose only block names a previous
  hash, both resolve true, for any digest function.
\<close>

theorem validateChain_ignores_linkage:
  "let genesis = seal SHA256 \<lparr>hash = None, height = 0, body = Data ''Genesis Block'',
                    time = ''1700000000'', previousBlockHash = None\<rparr>;
       forged = seal SHA256 \<lparr>hash = None, height = 1, body = OwnerStar ''addr'' star,
                    time = ''1700000100'', previousBlockHash = Some (CHR ''x'' # the (hash genesis))\<rparr>;
       orphan = seal SHA256 \<lparr>hash = None, height = 0, body = Data ''Genesis Block'',
                    time = ''1700000000'', previousBlockHash = Some ''x''\<rparr>
   in previousBlockHash forged \<noteq> hash genesis
      \<and> validateChain (validate_recompute SHA256)
           \<lparr>heap = (\<lambda>r. genesis)(1 := forged), next_ref = 2, this_chain = [0, 1], this_height = 2\<rparr>
          = Resolved True
      \<and> previousBlockHash orphan \<noteq> None
      \<and> validateChain (validate_recompute SHA256)
           \<lparr>heap = (\<lambda>r. orphan), next_ref = 1, this_chain = [0], this_height = 1\<rparr>
          = Resolved True"
  by (simp add: Let_def seal_def validateChain_def validate_recompute_def)


subsection \<open>The stars of an owner\<close>








subsection \<open>Heights and linkage of an appended chain\<close>

lemma addBlock_ResolvedD:
  assumes "addBlock validate SHA256 now block s = (Resolved sealed, s')"
  shows "sealed = block"
    and "validateChain validate s = Resolved True"
    and "this_chain s' = this_chain s @ [block]"
    and "next_ref s' = next_ref s"
    and "this_height s' = int (length (this_chain s)) + 1"
    and "\<And>r. r \<noteq> block \<Longrightarrow> heap s' r = heap s r"
    and "height (heap s' block) = length (this_chain s)"
    and "hash (heap s' block) \<noteq> None"
    and "body (heap s' block) = body (heap s block)"
    and "this_chain s = [] \<Longrightarrow> previousBlockHash (heap s' block) = previousBlockHash (heap s block)"
    and "this_chain s \<noteq> [] \<Longrightarrow> last (this_chain s) \<noteq> block \<Longrightarrow>
           previousBlockHash (heap s' block) = hash (heap s (last (this_chain s)))"
  using assms
  by (auto simp: addBlock_def Let_def split: promise.splits if_splits)









text \<open>
  Such sequences exist at every length: with blocks that validate themselves by
  recomputing their digest, a candidate that is not in the chain and comes without a hash
  is always appended, and the chain goes on validating.
\<close>

lemma addBlock_recompute_keeps_valid:
  assumes "\<forall>r \<in> set (this_chain s). validate_recompute SHA256 (heap s r) = Inr True"
    and "hash (heap s block) = None" and "block \<notin> set (this_chain s)"
  shows "\<exists>s'. addBlock (validate_recompute SHA256) SHA256 now block s = (Resolved block, s')
           \<and> (\<forall>r \<in> set (this_chain s'). validate_recompute SHA256 (heap s' r) = Inr True)"
proof -
  have v: "validateChain (validate_recompute SHA256) s = Resolved True"
    using assms(1) by (simp add: validateChain_True_iff)
  obtain b where b: "heap s block = b" by simp
  have hb: "hash b = None" using assms(2) b by simp
  show ?thesis
    using assms(1,3) v hb
    by (cases b) (auto simp: addBlock_def Let_def validate_recompute_def b)
qed

lemma addBlocks_recompute_succeed:
  assumes "\<forall>r \<in> set (this_chain s). validate_recompute SHA256 (heap s r) = Inr True"
    and "\<forall>(now, block) \<in> set appends. hash (heap s block) = None"
    and "distinct (map snd appends)"
    and "set (map snd appends) \<inter> set (this_chain s) = {}"
  shows "\<exists>s'. addBlocks (validate_recompute SHA256) SHA256 appends s = Some s'"
  using assms
proof (induction appends arbitrary: s)
  case Nil
  then show ?case by simp
next
  case (Cons a appends)
  obtain now block where a: "a = (now, block)" by (cases a)
  have "hash (heap s block) = None" using Cons.prems(2) by (simp add: a)
  moreover have fresh: "block \<notin> set (this_chain s)" using Cons.prems(4) by (auto simp: a)
  ultimately obtain mid where
    step: "addBlock (validate_recompute SHA256) SHA256 now block s = (Resolved block, mid)"
    and mid: "\<forall>r \<in> set (this_chain mid). validate_recompute SHA256 (heap mid r) = Inr True"
    using addBlock_recompute_keeps_valid[OF Cons.prems(1), of block now] by blast
  have chain: "this_chain mid = this_chain s @ [block]"
    by (rule addBlock_ResolvedD(3)[OF step])
  have same: "heap mid r = heap s r" if "r \<noteq> block" for r
    using that by (rule addBlock_ResolvedD(6)[OF step])
  have "\<forall>(now, r) \<in> set appends. hash (heap mid r) = None"
  proof (clarify)
    fix now' r assume m: "(now', r) \<in> set appends"
    then have "r \<in> snd ` set appends" by (intro image_eqI[where x = "(now', r)"]) simp_all
    then have "r \<noteq> block" using Cons.prems(3) by (auto simp: a)
    then show "hash (heap mid r) = None"
      using Cons.prems(2) m by (auto simp: same a)
  qed
  moreover have "distinct (map snd appends)" using Cons.prems(3) by simp
  moreover have "set (map snd appends) \<inter> set (this_chain mid) = {}"
    using Cons.prems(3,4) by (auto simp: a chain)
  ultimately have "\<exists>s'. addBlocks (validate_recompute SHA256) SHA256 appends mid = Some s'"
    using Cons.IH[OF mid] by blast
  then show ?case by (simp add: a step)
qed


end
